theory Spec2Isabelle
  imports Main "HOL-Library.AList"
begin

section \<open>Python values\<close>

text \<open>
  The two sample programs are Python. A Python \<open>str\<close> is a sequence of Unicode code
  points, so it is modelled as a list of natural numbers; \<open>py\<close> turns an Isabelle
  string literal into such a list. Values exchanged as JSON (the stock data, the trigger
  record, the events received from the bus) are values of type \<open>json\<close>: \<open>None\<close>,
  \<open>bool\<close>, \<open>int\<close>, \<open>float\<close>, \<open>str\<close>, \<open>list\<close> and \<open>dict\<close> with string keys (an
  association list in insertion order). A \<open>float\<close> is carried by its decimal text: the
  text \<open>repr\<close> prints when the value is serialised, the literal when it is parsed. No
  property below looks inside a float. The stock port may also return something the
  \<open>json\<close> module does not know: \<open>PyObject c\<close> is an object of any other class \<open>c\<close>,
  which \<open>json.dumps\<close> refuses and \<open>json.loads\<close> never returns.
\<close>

type_synonym pystr = "nat list"

definition py :: "string \<Rightarrow> pystr" where
  "py s = map of_char s"

datatype json = JNull | JBool bool | JInt int | JFloat pystr | JString pystr
  | JArray "json list" | JObject "(pystr \<times> json) list" | PyObject pystr

text \<open>
  Exceptions are values: every operation that can raise returns \<open>exn + 'a\<close>, with
  \<open>Inl\<close> for the exception. \<open>OtherError\<close> stands for the exception classes that the
  cloud clients define. All of them are subclasses of Python's \<open>Exception\<close>; an
  interrupt of the interpreter (\<open>KeyboardInterrupt\<close>, \<open>SystemExit\<close>) is not one and is
  not modelled.
\<close>

datatype exn = Exception pystr | AssertionError | KeyError pystr | TypeError | ValueError
  | JSONDecodeError | UnboundLocalError pystr | OtherError pystr

text \<open>
  CPython (3.11, and the security releases of the versions before it) converts between
  \<open>int\<close> and decimal text only up to a number of digits, by default
  \<open>sys.int_info.default_max_str_digits\<close>; beyond it \<open>int(text)\<close>, \<open>str(n)\<close> and
  \<open>repr(n)\<close> raise \<open>ValueError\<close>.
\<close>

definition int_max_str_digits :: nat where
  "int_max_str_digits = 4300"

section \<open>The standard library's \<open>json\<close> module\<close>

subsection \<open>\<open>json.loads\<close>\<close>

text \<open>
  \<open>json.loads\<close> is modelled in two passes over the text. The first pass cuts the text
  into tokens the way the library's scanner reads them: whitespace is blank, tab, line
  feed and carriage return; a string runs to the closing quote, with the escapes of
  \<open>scanstring\<close> in strict mode (a raw control character is refused, \<open>\u\<close> takes four
  hexadecimal digits, a high and a low surrogate escape in a row are joined); a number
  follows the library's pattern \<^verbatim>\<open>-?(0|[1-9][0-9]*)(\.[0-9]+)?([eE][-+]?[0-9]+)?\<close>; the
  constants are \<open>null\<close>, \<open>true\<close>, \<open>false\<close>, \<open>NaN\<close>, \<open>Infinity\<close> and \<open>-Infinity\<close>.
  The second pass is a pushdown automaton over the tokens for the grammar of values,
  arrays and objects, which reads the tokens in order and stops at the first one the
  grammar does not allow. A failure is the library's \<open>JSONDecodeError\<close>, except that an
  integer literal with more digits than \<open>int\<close> converts raises \<open>ValueError\<close> where a
  value may stand. How deep arrays and objects may nest before CPython raises
  \<open>RecursionError\<close> depends on the call stack at the time of the call and is not
  modelled: the general properties below use \<open>json_loads\<close> only through the value it
  returns or the exception it raises, and the texts evaluated are nested two deep at
  most.
\<close>

definition is_ws :: "nat \<Rightarrow> bool" where
  "is_ws c = (c = 0x20 \<or> c = 0x09 \<or> c = 0x0A \<or> c = 0x0D)"

definition is_digit :: "nat \<Rightarrow> bool" where
  "is_digit c = (48 \<le> c \<and> c \<le> 57)"

definition hexval :: "nat \<Rightarrow> nat option" where
  "hexval c = (if 48 \<le> c \<and> c \<le> 57 then Some (c - 48)
               else if 97 \<le> c \<and> c \<le> 102 then Some (c - 87)
               else if 65 \<le> c \<and> c \<le> 70 then Some (c - 55)
               else None)"

definition decode_uXXXX :: "pystr \<Rightarrow> nat option" where
  "decode_uXXXX s = (case map hexval (take 4 s) of
       [Some a, Some b, Some c, Some d] \<Rightarrow> Some (((a * 16 + b) * 16 + c) * 16 + d)
     | _ \<Rightarrow> None)"

definition BACKSLASH :: "nat \<Rightarrow> nat option" where
  "BACKSLASH esc = (if esc = 0x22 then Some 0x22 else if esc = 0x5C then Some 0x5C
     else if esc = 0x2F then Some 0x2F else if esc = 0x62 then Some 0x08
     else if esc = 0x66 then Some 0x0C else if esc = 0x6E then Some 0x0A
     else if esc = 0x72 then Some 0x0D else if esc = 0x74 then Some 0x09 else None)"

definition emit :: "'a \<Rightarrow> ('a list \<times> 'b) option \<Rightarrow> ('a list \<times> 'b) option" where
  "emit c r = (case r of None \<Rightarrow> None | Some (content, rest) \<Rightarrow> Some (c # content, rest))"

text \<open>
  \<open>unescape s\<close> decodes one escape sequence, \<open>s\<close> being the text after the backslash,
  and returns the character it stands for and the text after the sequence.
\<close>

definition unescape :: "pystr \<Rightarrow> (nat \<times> pystr) option" where
  "unescape s =
     (case s of
        [] \<Rightarrow> None
      | esc # s1 \<Rightarrow>
         if esc \<noteq> 0x75 then map_option (\<lambda>ch. (ch, s1)) (BACKSLASH esc)
         else
           (case decode_uXXXX s1 of
              None \<Rightarrow> None
            | Some uni \<Rightarrow>
               if 0xD800 \<le> uni \<and> uni \<le> 0xDBFF \<and> take 2 (drop 4 s1) = [0x5C, 0x75] then
                 (case decode_uXXXX (drop 6 s1) of
                    None \<Rightarrow> None
                  | Some uni2 \<Rightarrow>
                     if 0xDC00 \<le> uni2 \<and> uni2 \<le> 0xDFFF
                     then Some (0x10000 + ((uni - 0xD800) * 1024 + (uni2 - 0xDC00)), drop 10 s1)
                     else Some (uni, drop 4 s1))
               else Some (uni, drop 4 s1)))"

lemma unescape_length: "unescape s = Some (ch, rest) \<Longrightarrow> length rest \<le> length s"
  unfolding unescape_def
  by (cases s) (auto split: if_splits option.splits)

text \<open>
  \<open>scanstring s\<close> reads a string literal whose opening quote has been consumed and
  returns its content and the text after the closing quote.
\<close>

function scanstring :: "pystr \<Rightarrow> (pystr \<times> pystr) option" where
  "scanstring [] = None"
| "scanstring (c # s) =
    (if c = 0x22 then Some ([], s)
     else if c = 0x5C then
       (case unescape s of None \<Rightarrow> None | Some (ch, rest) \<Rightarrow> emit ch (scanstring rest))
     else if c < 0x20 then None
     else emit c (scanstring s))"
  by pat_completeness auto
termination
  by (relation "measure length") (auto dest: unescape_length)

lemma emit_Some: "emit c r = Some (content, rest) \<longleftrightarrow> (\<exists>content'. r = Some (content', rest) \<and> content = c # content')"
  by (auto simp: emit_def split: option.splits)

lemma scanstring_length: "scanstring s = Some (content, rest) \<Longrightarrow> length rest < length s"
proof (induction s arbitrary: content rest rule: scanstring.induct)
  case 1
  then show ?case by simp
next
  case (2 c s)
  show ?case
  proof (cases "c = 0x22")
    case True
    with "2.prems" show ?thesis by simp
  next
    case quote: False
    show ?thesis
    proof (cases "c = 0x5C")
      case True
      with quote "2.prems" obtain ch r content' where u: "unescape s = Some (ch, r)"
        and sc: "scanstring r = Some (content', rest)"
        by (auto simp: emit_Some split: option.splits)
      from "2.IH"(1) [OF quote True u refl sc] unescape_length [OF u]
      show ?thesis by simp
    next
      case False
      with quote "2.prems" obtain content' where lo: "\<not> c < 0x20"
        and sc: "scanstring s = Some (content', rest)"
        by (auto simp: emit_Some split: if_splits)
      from "2.IH"(2) [OF quote False lo sc] show ?thesis by simp
    qed
  qed
qed

text \<open>
  The tokens. \<open>TBigInt\<close> is an integer literal with too many digits for \<open>int\<close>;
  \<open>TInvalid\<close> marks text at which no token starts and ends the list of tokens.
\<close>

datatype token = TBeginObject | TEndObject | TBeginArray | TEndArray | TColon | TComma
  | TString pystr | TConstant json | TBigInt | TInvalid

text \<open>Numbers: an integer literal becomes an \<open>int\<close>, one with a fraction or an exponent a \<open>float\<close>.\<close>

definition nat_of_digits :: "pystr \<Rightarrow> nat" where
  "nat_of_digits ds = foldl (\<lambda>n d. 10 * n + (d - 48)) 0 ds"

definition match_frac :: "pystr \<Rightarrow> pystr \<times> pystr" where
  "match_frac s =
     (case s of
        dot # f # r \<Rightarrow>
          if dot = 0x2E \<and> is_digit f
          then (dot # takeWhile is_digit (f # r), dropWhile is_digit (f # r))
          else ([], s)
      | _ \<Rightarrow> ([], s))"

definition match_exp :: "pystr \<Rightarrow> pystr \<times> pystr" where
  "match_exp s =
     (case s of
        [] \<Rightarrow> ([], s)
      | e # r \<Rightarrow>
          if e = 0x65 \<or> e = 0x45 then
            (let (sign, r1) = (case r of
                                 [] \<Rightarrow> ([], r)
                               | sg # r' \<Rightarrow> if sg = 0x2B \<or> sg = 0x2D then ([sg], r') else ([], r))
             in if takeWhile is_digit r1 = [] then ([], s)
                else (e # sign @ takeWhile is_digit r1, dropWhile is_digit r1))
          else ([], s))"

definition match_number :: "pystr \<Rightarrow> (token \<times> pystr) option" where
  "match_number s =
     (let (minus, s1) = (case s of
                           [] \<Rightarrow> ([], s)
                         | c # r \<Rightarrow> if c = 0x2D then ([c], r) else ([], s))
      in case s1 of
           [] \<Rightarrow> None
         | d # r \<Rightarrow>
             if \<not> is_digit d then None
             else
               (let (integer, s2) = (if d = 0x30 then ([d], r)
                                     else (takeWhile is_digit s1, dropWhile is_digit s1));
                    (frac, s3) = match_frac s2;
                    (exp, s4) = match_exp s3
                in if frac = [] \<and> exp = []
                   then (if int_max_str_digits < length integer then Some (TBigInt, s4)
                         else Some (TConstant
                                      (JInt (if minus = [] then int (nat_of_digits integer)
                                             else - int (nat_of_digits integer))), s4))
                   else Some (TConstant (JFloat (minus @ integer @ frac @ exp)), s4)))"

lemma match_frac_length: "match_frac s = (frac, rest) \<Longrightarrow> length rest \<le> length s"
  by (auto simp: match_frac_def split: list.splits if_splits
      intro: le_trans [OF length_dropWhile_le])

lemma match_exp_length: "match_exp s = (ex, rest) \<Longrightarrow> length rest \<le> length s"
  by (auto simp: match_exp_def Let_def split: list.splits if_splits prod.splits
      intro: le_trans [OF length_dropWhile_le] le_SucI)

lemma match_number_length:
  assumes "match_number s = Some (v, rest)"
  shows "length rest < length s"
proof -
  obtain minus s1 where m: "(case s of [] \<Rightarrow> ([], s)
      | c # r \<Rightarrow> if c = 0x2D then ([c], r) else ([], s)) = (minus, s1)"
    by (cases "(case s of [] \<Rightarrow> ([]::pystr, s) | c # r \<Rightarrow> if c = 0x2D then ([c], r) else ([], s))")
  then have s1: "length s1 \<le> length s"
    by (auto split: list.splits if_splits)
  from assms m obtain d r where c: "s1 = d # r" and d: "is_digit d"
    by (cases s1) (auto simp: match_number_def split: if_splits)
  obtain integer s2 where i: "(if d = 0x30 then ([d], r)
      else (takeWhile is_digit s1, dropWhile is_digit s1)) = (integer, s2)"
    by (cases "if d = 0x30 then ([d], r) else (takeWhile is_digit s1, dropWhile is_digit s1)")
  with c d have s2: "length s2 < length s1"
    by (auto split: if_splits intro: le_imp_less_Suc [OF length_dropWhile_le])
  obtain frac s3 where f: "match_frac s2 = (frac, s3)"
    by (cases "match_frac s2")
  obtain ex s4 where e: "match_exp s3 = (ex, s4)"
    by (cases "match_exp s3")
  from assms m c d i f e have "rest = s4"
    by (auto simp: match_number_def split: if_splits)
  with match_frac_length [OF f] match_exp_length [OF e] s1 s2 show ?thesis
    by simp
qed

definition scan_constant :: "pystr \<Rightarrow> (token \<times> pystr) option" where
  "scan_constant s =
     (if take 4 s = py ''null'' then Some (TConstant JNull, drop 4 s)
      else if take 4 s = py ''true'' then Some (TConstant (JBool True), drop 4 s)
      else if take 5 s = py ''false'' then Some (TConstant (JBool False), drop 5 s)
      else
        (case match_number s of
           Some r \<Rightarrow> Some r
         | None \<Rightarrow>
             if take 3 s = py ''NaN'' then Some (TConstant (JFloat (py ''NaN'')), drop 3 s)
             else if take 8 s = py ''Infinity''
               then Some (TConstant (JFloat (py ''Infinity'')), drop 8 s)
             else if take 9 s = py ''-Infinity''
               then Some (TConstant (JFloat (py ''-Infinity'')), drop 9 s)
             else None))"

lemma take_eq_length: "take n s = t \<Longrightarrow> length t = n \<Longrightarrow> 0 < n \<Longrightarrow> length (drop n s) < length s"
  by (cases "n \<le> length s") auto

lemma scan_constant_length:
  assumes "scan_constant s = Some (v, rest)"
  shows "length rest < length s"
  using assms unfolding scan_constant_def
  by (auto split: if_splits option.splits dest: match_number_length
      elim!: take_eq_length simp: py_def)

text \<open>The scanner: the text as a list of tokens.\<close>

function tokenize :: "pystr \<Rightarrow> token list" where
  "tokenize [] = []"
| "tokenize (c # s) =
    (if is_ws c then tokenize s
     else if c = 0x7B then TBeginObject # tokenize s
     else if c = 0x7D then TEndObject # tokenize s
     else if c = 0x5B then TBeginArray # tokenize s
     else if c = 0x5D then TEndArray # tokenize s
     else if c = 0x3A then TColon # tokenize s
     else if c = 0x2C then TComma # tokenize s
     else if c = 0x22 then
       (case scanstring s of
          None \<Rightarrow> [TInvalid]
        | Some (str, rest) \<Rightarrow> TString str # tokenize rest)
     else
       (case scan_constant (c # s) of
          None \<Rightarrow> [TInvalid]
        | Some (t, rest) \<Rightarrow> t # tokenize rest))"
  by pat_completeness auto
termination
proof (relation "measure length")
  fix c s x2 str rest
  assume "scanstring s = Some x2" "(str, rest) = x2"
  then show "(rest, c # s) \<in> measure length"
    using scanstring_length [of s str rest] by simp
next
  fix c s x2 t rest
  assume "scan_constant (c # s) = Some x2" "(t, rest) = x2"
  then show "(rest, c # s) \<in> measure length"
    using scan_constant_length [of "c # s" t rest] by simp
qed simp_all

text \<open>
  The parser keeps a stack of the arrays and objects that are still open. An
  \<open>ArrayFrame\<close> holds the elements read so far, an \<open>ObjectFrame\<close> the members read so
  far, a \<open>MemberFrame\<close> also the key whose value is being read. A member whose key is
  already present replaces the earlier value and keeps its position, as assignment to a
  Python \<open>dict\<close> does. Where a value may stand, an integer literal with too many digits
  raises \<open>ValueError\<close>; every other token the grammar does not allow there raises
  \<open>JSONDecodeError\<close>.
\<close>

datatype frame = ArrayFrame "json list" | ObjectFrame "(pystr \<times> json) list"
  | MemberFrame "(pystr \<times> json) list" pystr

datatype expect = ExpectValue | ExpectValueOrEnd | ExpectKeyOrEnd | ExpectKey | ExpectColon
  | ExpectCommaOrEnd | Finished json

fun reduce :: "json \<Rightarrow> frame list \<Rightarrow> exn + (expect \<times> frame list)" where
  "reduce v [] = Inr (Finished v, [])"
| "reduce v (ArrayFrame vs # st) = Inr (ExpectCommaOrEnd, ArrayFrame (vs @ [v]) # st)"
| "reduce v (MemberFrame kvs k # st) = Inr (ExpectCommaOrEnd, ObjectFrame (AList.update k v kvs) # st)"
| "reduce v (ObjectFrame kvs # st) = Inl JSONDecodeError"

fun begin_value :: "token \<Rightarrow> frame list \<Rightarrow> exn + (expect \<times> frame list)" where
  "begin_value (TConstant v) st = reduce v st"
| "begin_value (TString s) st = reduce (JString s) st"
| "begin_value TBeginArray st = Inr (ExpectValueOrEnd, ArrayFrame [] # st)"
| "begin_value TBeginObject st = Inr (ExpectKeyOrEnd, ObjectFrame [] # st)"
| "begin_value TBigInt st = Inl ValueError"
| "begin_value _ st = Inl JSONDecodeError"

fun parse_step :: "expect \<times> frame list \<Rightarrow> token \<Rightarrow> exn + (expect \<times> frame list)" where
  "parse_step (ExpectValue, st) t = begin_value t st"
| "parse_step (ExpectValueOrEnd, ArrayFrame vs # st) TEndArray = reduce (JArray vs) st"
| "parse_step (ExpectValueOrEnd, st) t = begin_value t st"
| "parse_step (ExpectKeyOrEnd, ObjectFrame kvs # st) TEndObject = reduce (JObject kvs) st"
| "parse_step (ExpectKeyOrEnd, ObjectFrame kvs # st) (TString k) = Inr (ExpectColon, MemberFrame kvs k # st)"
| "parse_step (ExpectKey, ObjectFrame kvs # st) (TString k) = Inr (ExpectColon, MemberFrame kvs k # st)"
| "parse_step (ExpectColon, st) TColon = Inr (ExpectValue, st)"
| "parse_step (ExpectCommaOrEnd, ArrayFrame vs # st) TComma = Inr (ExpectValue, ArrayFrame vs # st)"
| "parse_step (ExpectCommaOrEnd, ArrayFrame vs # st) TEndArray = reduce (JArray vs) st"
| "parse_step (ExpectCommaOrEnd, ObjectFrame kvs # st) TComma = Inr (ExpectKey, ObjectFrame kvs # st)"
| "parse_step (ExpectCommaOrEnd, ObjectFrame kvs # st) TEndObject = reduce (JObject kvs) st"
| "parse_step _ _ = Inl JSONDecodeError"

fun parse_tokens :: "expect \<times> frame list \<Rightarrow> token list \<Rightarrow> exn + json" where
  "parse_tokens (Finished v, []) [] = Inr v"
| "parse_tokens p [] = Inl JSONDecodeError"
| "parse_tokens p (t # ts) =
     (case parse_step p t of Inl e \<Rightarrow> Inl e | Inr p' \<Rightarrow> parse_tokens p' ts)"

definition json_loads :: "pystr \<Rightarrow> exn + json" where
  "json_loads s =
     (if take 1 s = [0xFEFF] then Inl JSONDecodeError
      else parse_tokens (ExpectValue, []) (tokenize s))"

subsection \<open>\<open>json.dumps\<close>\<close>

text \<open>
  \<open>json.dumps\<close> with its default arguments: the separators are \<open>", "\<close> and \<open>": "\<close>,
  and every character outside the printable ASCII range is escaped (\<open>ensure_ascii\<close>), a
  code point beyond the basic plane as a surrogate pair.
\<close>

definition hexdigit :: "nat \<Rightarrow> nat" where
  "hexdigit d = (if d < 10 then 48 + d else 87 + d)"

definition u_escape :: "nat \<Rightarrow> pystr" where
  "u_escape n = [0x5C, 0x75] @ map hexdigit [n div 4096 mod 16, n div 256 mod 16, n div 16 mod 16, n mod 16]"

definition escape_ascii :: "nat \<Rightarrow> pystr" where
  "escape_ascii c =
     (if c = 0x22 then [0x5C, 0x22]
      else if c = 0x5C then [0x5C, 0x5C]
      else if c = 0x0A then [0x5C, 0x6E]
      else if c = 0x0D then [0x5C, 0x72]
      else if c = 0x09 then [0x5C, 0x74]
      else if c = 0x08 then [0x5C, 0x62]
      else if c = 0x0C then [0x5C, 0x66]
      else if 0x20 \<le> c \<and> c \<le> 0x7E then [c]
      else if c < 0x10000 then u_escape c
      else (let n = c - 0x10000
            in u_escape (0xD800 + n div 1024 mod 1024) @ u_escape (0xDC00 + n mod 1024)))"

definition encode_basestring_ascii :: "pystr \<Rightarrow> pystr" where
  "encode_basestring_ascii s = [0x22] @ concat (map escape_ascii s) @ [0x22]"

fun show_nat :: "nat \<Rightarrow> pystr" where
  "show_nat n = (if n < 10 then [48 + n] else show_nat (n div 10) @ [48 + n mod 10])"

definition show_int :: "int \<Rightarrow> pystr" where
  "show_int i = (if i < 0 then 0x2D # show_nat (nat (- i)) else show_nat (nat i))"

fun join :: "pystr \<Rightarrow> pystr list \<Rightarrow> pystr" where
  "join sep [] = []"
| "join sep [x] = x"
| "join sep (x # y # zs) = x @ sep @ join sep (y # zs)"

text \<open>
  \<open>json_encode\<close> is the text of a value that can be serialised. \<open>json.dumps\<close> goes through
  the value in order and raises at the first part it cannot serialise: \<open>ValueError\<close> at an
  integer with too many digits for \<open>repr\<close>, \<open>TypeError\<close> at an object of a class it
  does not know. As for \<open>json.loads\<close>, the limit on nesting depth is not modelled.
\<close>

fun json_encode :: "json \<Rightarrow> pystr" where
  "json_encode JNull = py ''null''"
| "json_encode (JBool b) = (if b then py ''true'' else py ''false'')"
| "json_encode (JInt i) = show_int i"
| "json_encode (JFloat r) = r"
| "json_encode (JString s) = encode_basestring_ascii s"
| "json_encode (JArray vs) = [0x5B] @ join (py '', '') (map json_encode vs) @ [0x5D]"
| "json_encode (JObject kvs) =
     [0x7B] @ join (py '', '')
        (map (\<lambda>(k, v). encode_basestring_ascii k @ py '': '' @ json_encode v) kvs) @ [0x7D]"
| "json_encode (PyObject c) = []"

definition too_many_digits :: "int \<Rightarrow> bool" where
  "too_many_digits i = (int_max_str_digits < length (show_nat (nat \<bar>i\<bar>)))"

fun first_raised :: "exn option list \<Rightarrow> exn option" where
  "first_raised [] = None"
| "first_raised (None # rs) = first_raised rs"
| "first_raised (Some e # rs) = Some e"

fun dumps_raises :: "json \<Rightarrow> exn option" where
  "dumps_raises (JInt i) = (if too_many_digits i then Some ValueError else None)"
| "dumps_raises (PyObject c) = Some TypeError"
| "dumps_raises (JArray vs) = first_raised (map dumps_raises vs)"
| "dumps_raises (JObject kvs) = first_raised (map (\<lambda>kv. dumps_raises (snd kv)) kvs)"
| "dumps_raises v = None"

definition json_dumps :: "json \<Rightarrow> exn + pystr" where
  "json_dumps v = (case dumps_raises v of Some e \<Rightarrow> Inl e | None \<Rightarrow> Inr (json_encode v))"

subsection \<open>\<open>str\<close> and \<open>print\<close>\<close>

text \<open>
  \<open>print\<close> writes \<open>str\<close> of each argument. \<open>str\<close> of a value raises \<open>ValueError\<close> if an
  integer in it has too many digits; an object of another class is taken to have a
  \<open>repr\<close> that does not raise.
\<close>

fun str_raises :: "json \<Rightarrow> exn option" where
  "str_raises (JInt i) = (if too_many_digits i then Some ValueError else None)"
| "str_raises (JArray vs) = first_raised (map str_raises vs)"
| "str_raises (JObject kvs) = first_raised (map (\<lambda>kv. str_raises (snd kv)) kvs)"
| "str_raises v = None"

section \<open>The stock request handler (\<open>adapters/HandleStockRequest.py\<close>)\<close>

text \<open>
  \<open>getStocksRequest\<close> calls the port \<open>HttpHandler.retrieveStock\<close>, which is a parameter
  of the model: any function from the stock identifier to a value or an exception. The
  \<open>try\<close> block then prints the value and serialises it, and both can raise: \<open>print\<close>
  has written the label \<open>Stock Data\<close> when \<open>str\<close> of the value raises, and \<open>json.dumps\<close>
  raises after the value has been printed. The \<open>except\<close> clause prints whatever was
  raised. The model returns what the function printed and how it ended. The local
  variable \<open>response\<close> is bound only at the end of the \<open>try\<close> block; the \<open>return\<close>
  statement reads it on every path, and reading an unbound local raises
  \<open>UnboundLocalError\<close>.
\<close>

record envelope =
  statusCode :: int
  body :: pystr

datatype printed = PrintStockData json | PrintLabel | PrintException exn

definition getStocksRequest :: "('id \<Rightarrow> exn + json) \<Rightarrow> 'id \<Rightarrow> printed list \<times> (exn + envelope)" where
  "getStocksRequest retrieveStock stockID =
     (let (out, response) =
        (case retrieveStock stockID of
           Inl e \<Rightarrow> ([PrintException e], None)
         | Inr stockData \<Rightarrow>
             (case str_raises stockData of
                Some e \<Rightarrow> ([PrintLabel, PrintException e], None)
              | None \<Rightarrow>
                  (case json_dumps (JObject [(py ''message'', stockData)]) of
                     Inl e \<Rightarrow> ([PrintStockData stockData, PrintException e], None)
                   | Inr text \<Rightarrow>
                       ([PrintStockData stockData],
                        Some \<lparr>statusCode = 200, body = text\<rparr>))))
      in (out, case response of
                 None \<Rightarrow> Inl (UnboundLocalError (py ''response''))
               | Some r \<Rightarrow> Inr r))"

section \<open>The integration test (\<open>tests/integration/test_by_waiting.py\<close>)\<close>

subsection \<open>The class body\<close>

text \<open>
  The body of the class \<open>TestMinimalPluginByWaiting\<close> runs once, when the module is
  loaded. It reads two environment variables (\<open>os.environ.get\<close> gives \<open>None\<close> for a
  variable that is not set), raises if one is missing, and then constructs the two
  clients, the Step Functions client together with its \<open>Config\<close>. The constructors are
  a parameter: \<open>construct c\<close> is the exception the construction of client \<open>c\<close>
  raises, if any. The result is the list of constructions
  that were started, and the exception raised or the class attributes.
\<close>

datatype client = AwsIatk pystr | StepFunctionsClient pystr

record class_attrs =
  aws_region :: pystr
  plugin_tester_stack_name :: pystr

definition SLA_TIMEOUT_SECONDS :: int where
  "SLA_TIMEOUT_SECONDS = 20"

definition class_body :: "(pystr \<rightharpoonup> pystr) \<Rightarrow> (client \<Rightarrow> exn option) \<Rightarrow> client list \<times> (exn + class_attrs)" where
  "class_body environ construct =
     (case environ (py ''AWS_REGION'') of
        None \<Rightarrow> ([], Inl (Exception (py ''AWS_REGION environment variable is required'')))
      | Some region \<Rightarrow>
          (case environ (py ''PLUGIN_TESTER_STACK_NAME'') of
             None \<Rightarrow>
               ([], Inl (Exception (py ''PLUGIN_TESTER_STACK_NAME environment variable is required'')))
           | Some stack_name \<Rightarrow>
               (case construct (AwsIatk region) of
                  Some e \<Rightarrow> ([AwsIatk region], Inl e)
                | None \<Rightarrow>
                    (case construct (StepFunctionsClient region) of
                       Some e \<Rightarrow> ([AwsIatk region, StepFunctionsClient region], Inl e)
                     | None \<Rightarrow>
                         ([AwsIatk region, StepFunctionsClient region],
                          Inr \<lparr>aws_region = region, plugin_tester_stack_name = stack_name\<rparr>)))))"

subsection \<open>The match predicate\<close>

text \<open>
  \<open>event["source"]\<close> on the parsed payload: a \<open>dict\<close> raises \<open>KeyError\<close> for a key it
  does not hold, and every other JSON value raises \<open>TypeError\<close> when it is indexed by a
  string. \<open>==\<close> against a string literal is true for an equal string and false for
  every other value. \<open>and\<close> evaluates its right operand only if the left one is true.
\<close>

definition getitem :: "json \<Rightarrow> pystr \<Rightarrow> exn + json" where
  "getitem event key =
     (case event of
        JObject kvs \<Rightarrow> (case map_of kvs key of None \<Rightarrow> Inl (KeyError key) | Some v \<Rightarrow> Inr v)
      | _ \<Rightarrow> Inl TypeError)"

definition eq_str :: "json \<Rightarrow> pystr \<Rightarrow> bool" where
  "eq_str v s = (case v of JString t \<Rightarrow> t = s | _ \<Rightarrow> False)"

definition matched_event_is_correct :: "pystr \<Rightarrow> exn + bool" where
  "matched_event_is_correct received =
     (case json_loads received of
        Inl e \<Rightarrow> Inl e
      | Inr event \<Rightarrow>
          (case getitem event (py ''source'') of
             Inl e \<Rightarrow> Inl e
           | Inr source \<Rightarrow>
               if \<not> eq_str source (py ''video.plugin.PythonMinimalPlugin'') then Inr False
               else
                 (case getitem event (py ''detail-type'') of
                    Inl e \<Rightarrow> Inl e
                  | Inr detail_type \<Rightarrow> Inr (eq_str detail_type (py ''plugin-complete'')))))"

subsection \<open>The cloud clients and the test case\<close>

text \<open>
  The test talks to the Integrated Application Test Kit and to Step Functions. What
  these services answer is a parameter of the model: a record of functions from the
  arguments of a call to its result or the exception it raises. Each of them is called
  at most once in a run of the test. The test case keeps the three instance attributes,
  which are \<open>None\<close> until \<open>setUp\<close> assigns them, and the model adds the list of calls
  made so far, oldest first. \<open>AddListener\<close> records the answer too, since a listener
  exists only if the call returned one. How long a call takes is not part of the model.
\<close>

record services =
  get_stack_outputs :: "pystr \<Rightarrow> pystr list \<Rightarrow> exn + (pystr \<rightharpoonup> pystr)"
  add_listener :: "pystr \<Rightarrow> pystr option \<Rightarrow> exn + pystr"
  remove_listeners :: "pystr option list \<Rightarrow> exn + unit"
  start_execution :: "pystr option \<Rightarrow> pystr \<Rightarrow> exn + unit"
  wait_until_event_matched :: "pystr option \<Rightarrow> (pystr \<Rightarrow> exn + bool) \<Rightarrow> int \<Rightarrow> exn + bool"

datatype call =
    GetStackOutputs pystr "pystr list"
  | AddListener pystr "pystr option" "exn + pystr"
  | RemoveListeners "pystr option list"
  | StartExecution "pystr option" pystr
  | WaitUntilEventMatched "pystr option" int

record test_case =
  listener_id :: "pystr option"
  plugin_tester_arn :: "pystr option"
  existing_rule_name :: "pystr option"
  calls :: "call list"

definition new_test_case :: test_case where
  "new_test_case = \<lparr>listener_id = None, plugin_tester_arn = None, existing_rule_name = None,
                     calls = []\<rparr>"

definition called :: "call \<Rightarrow> test_case \<Rightarrow> test_case" where
  "called c self = self\<lparr>calls := calls self @ [c]\<rparr>"

definition setUp :: "services \<Rightarrow> class_attrs \<Rightarrow> test_case \<Rightarrow> test_case \<times> (exn + unit)" where
  "setUp sv cls self =
     (let output_names = [py ''PluginLifecycleWorkflow'', py ''PluginSuccessEventRuleName''];
          self1 = called (GetStackOutputs (plugin_tester_stack_name cls) output_names) self
      in case get_stack_outputs sv (plugin_tester_stack_name cls) output_names of
           Inl e \<Rightarrow> (self1, Inl e)
         | Inr outputs \<Rightarrow>
             (case outputs (py ''PluginLifecycleWorkflow'') of
                None \<Rightarrow> (self1, Inl (KeyError (py ''PluginLifecycleWorkflow'')))
              | Some arn \<Rightarrow>
                  (let self2 = self1\<lparr>plugin_tester_arn := Some arn\<rparr>
                   in case outputs (py ''PluginSuccessEventRuleName'') of
                        None \<Rightarrow> (self2, Inl (KeyError (py ''PluginSuccessEventRuleName'')))
                      | Some rule_name \<Rightarrow>
                          (let self3 = self2\<lparr>existing_rule_name := Some rule_name\<rparr>;
                               add_listener_output =
                                 add_listener sv (py ''default'') (existing_rule_name self3);
                               self4 = called (AddListener (py ''default'') (existing_rule_name self3)
                                                 add_listener_output) self3
                           in case add_listener_output of
                                Inl e \<Rightarrow> (self4, Inl e)
                              | Inr lid \<Rightarrow> (self4\<lparr>listener_id := Some lid\<rparr>, Inr ())))))"

definition tearDown :: "services \<Rightarrow> test_case \<Rightarrow> test_case \<times> (exn + unit)" where
  "tearDown sv self =
     (let self1 = called (RemoveListeners [listener_id self]) self
      in case remove_listeners sv [listener_id self] of
           Inl e \<Rightarrow> (self1, Inl e)
         | Inr _ \<Rightarrow> (self1, Inr ()))"

definition trigger_event :: json where
  "trigger_event = JObject [(py ''eventHook'', JString (py ''postValidate'')),
                            (py ''pluginTitle'', JString (py ''PythonMinimalPlugin''))]"

definition assertTrue :: "bool \<Rightarrow> exn + unit" where
  "assertTrue expr = (if expr then Inr () else Inl AssertionError)"

definition test_minimal_plugin_event_published_waiting ::
    "services \<Rightarrow> test_case \<Rightarrow> test_case \<times> (exn + unit)" where
  "test_minimal_plugin_event_published_waiting sv self =
     (case json_dumps trigger_event of
        Inl e \<Rightarrow> (self, Inl e)
      | Inr input \<Rightarrow>
          (let self1 = called (StartExecution (plugin_tester_arn self) input) self
           in case start_execution sv (plugin_tester_arn self) input of
                Inl e \<Rightarrow> (self1, Inl e)
              | Inr _ \<Rightarrow>
                  (let self2 = called (WaitUntilEventMatched (listener_id self1)
                                         SLA_TIMEOUT_SECONDS) self1
                   in case wait_until_event_matched sv (listener_id self1)
                             matched_event_is_correct SLA_TIMEOUT_SECONDS of
                        Inl e \<Rightarrow> (self2, Inl e)
                      | Inr event_was_matched \<Rightarrow> (self2, assertTrue event_was_matched))))"

subsection \<open>One run of the test case under \<open>unittest\<close>\<close>

text \<open>
  \<open>unittest.TestCase.run\<close> creates a fresh instance for the test method and calls
  \<open>setUp\<close>. If \<open>setUp\<close> raises, neither the test method nor \<open>tearDown\<close> is called.
  Otherwise the test method is called, and then \<open>tearDown\<close>, whatever the outcome of the
  test method was. An \<open>AssertionError\<close> is reported as a failure of the test, every
  other exception as an error.
\<close>

datatype report = Failure | Error exn

definition report_of :: "exn + unit \<Rightarrow> report list" where
  "report_of r = (case r of
                    Inr _ \<Rightarrow> []
                  | Inl e \<Rightarrow> if e = AssertionError then [Failure] else [Error e])"

definition run :: "services \<Rightarrow> class_attrs \<Rightarrow> test_case \<times> report list" where
  "run sv cls =
     (case setUp sv cls new_test_case of
        (self1, Inl e) \<Rightarrow> (self1, report_of (Inl e))
      | (self1, Inr _) \<Rightarrow>
          (case test_minimal_plugin_event_published_waiting sv self1 of
             (self2, outcome) \<Rightarrow>
               (case tearDown sv self2 of
                  (self3, cleanup) \<Rightarrow> (self3, report_of outcome @ report_of cleanup))))"

text \<open>
  The listeners a run acquired are the identifiers that \<open>add_listener\<close> returned; the
  listeners it released are the identifiers it passed to \<open>remove_listeners\<close>.
\<close>

fun acquired :: "call list \<Rightarrow> pystr list" where
  "acquired [] = []"
| "acquired (AddListener bus rule (Inr lid) # cs) = lid # acquired cs"
| "acquired (c # cs) = acquired cs"

fun released :: "call list \<Rightarrow> pystr option list" where
  "released [] = []"
| "released (RemoveListeners ids # cs) = ids @ released cs"
| "released (c # cs) = released cs"

text \<open>The inputs a run passed to \<open>start_execution\<close>, in order.\<close>

fun sent :: "call list \<Rightarrow> pystr list" where
  "sent [] = []"
| "sent (StartExecution arn input # cs) = input # sent cs"
| "sent (c # cs) = sent cs"

text \<open>The listener and the timeout of each call of the wait step, in order.\<close>

fun waits :: "call list \<Rightarrow> (pystr option \<times> int) list" where
  "waits [] = []"
| "waits (WaitUntilEventMatched lid timeout_seconds # cs) = (lid, timeout_seconds) # waits cs"
| "waits (c # cs) = waits cs"

subsection \<open>The wait step\<close>

text \<open>
  Modelled from the spec: \<open>wait_until_event_matched\<close> belongs to the Integrated
  Application Test Kit and its code is not in the repository, so \<open>wait_spec\<close> follows
  the spec's description of the wait step (section 4.2 and section 5): poll the listener
  for incoming events up to a fixed deadline, feed each received event to the predicate,
  stop and succeed on the first match, fail if the deadline elapses with no match.
  The events are listed in the order of their arrival, each with its arrival time, in
  the time units of the deadline and counted from the start of the wait. The predicate
  is a function from the event to a boolean, as in the spec's data model. The result is
  the boolean the wait returns and the time at which it returns.
\<close>

fun wait_spec :: "(int \<times> 'e) list \<Rightarrow> ('e \<Rightarrow> bool) \<Rightarrow> int \<Rightarrow> bool \<times> int" where
  "wait_spec [] predicate deadline = (False, deadline)"
| "wait_spec ((t, ev) # evs) predicate deadline =
     (if deadline \<le> t then (False, deadline)
      else if predicate ev then (True, t)
      else wait_spec evs predicate deadline)"

text \<open>
  Modelled from the spec: the wait step as the service the test calls, for a listener
  that receives the events \<open>evs\<close>. An event matches when the assertion function returns
  \<open>True\<close> on it, and the call returns the boolean of \<open>wait_spec\<close>. The spec does not say
  what the wait does with an assertion function that raises; the properties below are
  about events on which it returns a boolean.
\<close>

definition wait_until_event_matched_spec ::
    "(int \<times> pystr) list \<Rightarrow> pystr option \<Rightarrow> (pystr \<Rightarrow> exn + bool) \<Rightarrow> int \<Rightarrow> exn + bool" where
  "wait_until_event_matched_spec evs lid assertion_fn timeout_seconds =
     Inr (fst (wait_spec evs (\<lambda>received. assertion_fn received = Inr True) timeout_seconds))"

section \<open>Sample inputs\<close>

text \<open>A stock port that knows one stock and fails with an HTTP error on every other identifier.\<close>

definition sample_retrieveStock :: "pystr \<Rightarrow> exn + json" where
  "sample_retrieveStock stockID =
     (if stockID = py ''AMZN''
      then Inr (JObject [(py ''symbol'', JString (py ''AMZN'')), (py ''price'', JFloat (py ''178.25''))])
      else Inl (OtherError (py ''HTTPError'')))"



text \<open>Two process environments: one that sets only the region, one that sets both variables.\<close>

definition region_only_environ :: "pystr \<rightharpoonup> pystr" where
  "region_only_environ = [py ''AWS_REGION'' \<mapsto> py ''eu-west-1'']"

definition sample_environ :: "pystr \<rightharpoonup> pystr" where
  "sample_environ = [py ''AWS_REGION'' \<mapsto> py ''eu-west-1'',
                     py ''PLUGIN_TESTER_STACK_NAME'' \<mapsto> py ''plugin-tester'']"

text \<open>
  Two events as the bus delivers them, with the same \<open>source\<close> and \<open>detail-type\<close> and
  different other members, and the dictionaries they parse to.
\<close>

definition sample_event :: pystr where
  \<open>sample_event = py ''{"version": "0", "id": "6a7e8feb", "detail-type": "plugin-complete", "source": "video.plugin.PythonMinimalPlugin", "resources": [], "detail": {"pluginTitle": "PythonMinimalPlugin", "elapsed": 1.5e0}}''\<close>

definition sample_event_kvs :: "(pystr \<times> json) list" where
  "sample_event_kvs =
     [(py ''version'', JString (py ''0'')), (py ''id'', JString (py ''6a7e8feb'')),
      (py ''detail-type'', JString (py ''plugin-complete'')),
      (py ''source'', JString (py ''video.plugin.PythonMinimalPlugin'')),
      (py ''resources'', JArray []),
      (py ''detail'', JObject [(py ''pluginTitle'', JString (py ''PythonMinimalPlugin'')),
                               (py ''elapsed'', JFloat (py ''1.5e0''))])]"

definition terse_event :: pystr where
  \<open>terse_event = py ''{"source":"video.plugin.PythonMinimalPlugin","detail-type":"plugin-complete","n":-7}''\<close>

definition terse_event_kvs :: "(pystr \<times> json) list" where
  "terse_event_kvs =
     [(py ''source'', JString (py ''video.plugin.PythonMinimalPlugin'')),
      (py ''detail-type'', JString (py ''plugin-complete'')),
      (py ''n'', JInt (- 7))]"

text \<open>An event of another plugin.\<close>

definition other_event :: pystr where
  \<open>other_event = py ''{"source": "video.plugin.OtherPlugin", "detail-type": "plugin-complete"}''\<close>

definition other_event_kvs :: "(pystr \<times> json) list" where
  "other_event_kvs =
     [(py ''source'', JString (py ''video.plugin.OtherPlugin'')),
      (py ''detail-type'', JString (py ''plugin-complete''))]"

text \<open>
  Two event streams: in the first the matching event arrives 7 seconds into the wait, in
  the second only after 25 seconds.
\<close>

definition timely_events :: "(int \<times> pystr) list" where
  "timely_events = [(3, other_event), (7, sample_event), (9, terse_event)]"

definition late_events :: "(int \<times> pystr) list" where
  "late_events = [(3, other_event), (25, sample_event)]"

text \<open>
  A deployment in which every call succeeds; what the wait step answers is left open.
\<close>

definition sample_outputs :: "pystr \<rightharpoonup> pystr" where
  "sample_outputs =
     [py ''PluginLifecycleWorkflow'' \<mapsto>
        py ''arn:aws:states:eu-west-1:123456789012:stateMachine:PluginLifecycle'',
      py ''PluginSuccessEventRuleName'' \<mapsto> py ''plugin-success-rule'']"

definition sample_services :: "(exn + bool) \<Rightarrow> services" where
  "sample_services waited =
     \<lparr>get_stack_outputs = (\<lambda>stack_name output_names. Inr sample_outputs),
      add_listener = (\<lambda>bus rule. Inr (py ''listener-1'')),
      remove_listeners = (\<lambda>ids. Inr ()),
      start_execution = (\<lambda>arn input. Inr ()),
      wait_until_event_matched = (\<lambda>lid assertion_fn timeout_seconds. waited)\<rparr>"

text \<open>The same deployment with the wait step of the spec on a given event stream.\<close>

definition sample_services_on :: "(int \<times> pystr) list \<Rightarrow> services" where
  "sample_services_on evs =
     (sample_services (Inr False))\<lparr>wait_until_event_matched := wait_until_event_matched_spec evs\<rparr>"

definition sample_class :: class_attrs where
  "sample_class = \<lparr>aws_region = py ''eu-west-1'', plugin_tester_stack_name = py ''plugin-tester''\<rparr>"

section \<open>Evaluation of the samples\<close>

lemmas json_loads_eval = py_def json_loads_def is_ws_def is_digit_def emit_def
  scan_constant_def match_number_def match_frac_def match_exp_def nat_of_digits_def
  unescape_def decode_uXXXX_def hexval_def BACKSLASH_def int_max_str_digits_def

lemmas json_dumps_eval = py_def json_dumps_def encode_basestring_ascii_def escape_ascii_def
  u_escape_def hexdigit_def show_int_def too_many_digits_def int_max_str_digits_def

lemma json_dumps_trigger_event:
  \<open>json_dumps trigger_event =
     Inr (py ''{"eventHook": "postValidate", "pluginTitle": "PythonMinimalPlugin"}'')\<close>
  unfolding trigger_event_def by (simp add: json_dumps_eval)





lemma json_loads_trigger_text:
  \<open>json_loads (py ''{"eventHook": "postValidate", "pluginTitle": "PythonMinimalPlugin"}'') =
     Inr trigger_event\<close>
  unfolding trigger_event_def by (simp add: json_loads_eval)

lemma json_loads_sample_event: "json_loads sample_event = Inr (JObject sample_event_kvs)"
  unfolding sample_event_def sample_event_kvs_def by (simp add: json_loads_eval)

lemma json_loads_terse_event: "json_loads terse_event = Inr (JObject terse_event_kvs)"
  unfolding terse_event_def terse_event_kvs_def by (simp add: json_loads_eval)

lemma json_loads_other_event: "json_loads other_event = Inr (JObject other_event_kvs)"
  unfolding other_event_def other_event_kvs_def by (simp add: json_loads_eval)

lemma sample_event_fields:
  "map_of sample_event_kvs (py ''source'') = Some (JString (py ''video.plugin.PythonMinimalPlugin''))"
  "map_of sample_event_kvs (py ''detail-type'') = Some (JString (py ''plugin-complete''))"
  by (simp_all add: sample_event_kvs_def py_def)

lemma other_event_fields:
  "map_of other_event_kvs (py ''source'') = Some (JString (py ''video.plugin.OtherPlugin''))"
  "py ''video.plugin.OtherPlugin'' \<noteq> py ''video.plugin.PythonMinimalPlugin''"
  by (simp_all add: other_event_kvs_def py_def)

lemma terse_event_fields:
  "map_of terse_event_kvs (py ''source'') = Some (JString (py ''video.plugin.PythonMinimalPlugin''))"
  "map_of terse_event_kvs (py ''detail-type'') = Some (JString (py ''plugin-complete''))"
  by (simp_all add: terse_event_kvs_def py_def)

lemma environ_simps:
  "region_only_environ (py ''AWS_REGION'') = Some (py ''eu-west-1'')"
  "region_only_environ (py ''PLUGIN_TESTER_STACK_NAME'') = None"
  "sample_environ (py ''AWS_REGION'') = Some (py ''eu-west-1'')"
  "sample_environ (py ''PLUGIN_TESTER_STACK_NAME'') = Some (py ''plugin-tester'')"
  by (simp_all add: region_only_environ_def sample_environ_def py_def)

lemma sample_outputs_simps:
  "sample_outputs (py ''PluginLifecycleWorkflow'') =
     Some (py ''arn:aws:states:eu-west-1:123456789012:stateMachine:PluginLifecycle'')"
  "sample_outputs (py ''PluginSuccessEventRuleName'') = Some (py ''plugin-success-rule'')"
  by (simp_all add: sample_outputs_def py_def)

lemma sample_setUp:
  "setUp (sample_services waited) sample_class new_test_case =
     (\<lparr>listener_id = Some (py ''listener-1''),
       plugin_tester_arn =
         Some (py ''arn:aws:states:eu-west-1:123456789012:stateMachine:PluginLifecycle''),
       existing_rule_name = Some (py ''plugin-success-rule''),
       calls = [GetStackOutputs (py ''plugin-tester'')
                  [py ''PluginLifecycleWorkflow'', py ''PluginSuccessEventRuleName''],
                AddListener (py ''default'') (Some (py ''plugin-success-rule''))
                  (Inr (py ''listener-1''))]\<rparr>, Inr ())"
  by (simp add: setUp_def sample_services_def sample_class_def new_test_case_def called_def
      sample_outputs_simps)

section \<open>What each step of a run does to the test case\<close>

lemma acquired_append: "acquired (xs @ ys) = acquired xs @ acquired ys"
  by (induction xs rule: acquired.induct) simp_all

lemma released_append: "released (xs @ ys) = released xs @ released ys"
  by (induction xs rule: released.induct) simp_all

lemma sent_append: "sent (xs @ ys) = sent xs @ sent ys"
  by (induction xs rule: sent.induct) simp_all

lemma waits_append: "waits (xs @ ys) = waits xs @ waits ys"
  by (induction xs rule: waits.induct) simp_all

lemma new_test_case_calls: "calls new_test_case = []"
  by (simp add: new_test_case_def)

lemma setUp_raises:
  assumes "setUp sv cls self = (self', Inl e)"
  shows "acquired (calls self') = acquired (calls self) \<and>
         released (calls self') = released (calls self)"
  using assms
  by (auto simp: setUp_def called_def Let_def acquired_append released_append
      split: sum.splits option.splits)

lemma setUp_returns:
  assumes "setUp sv cls self = (self', Inr u)"
  shows "\<exists>lid. listener_id self' = Some lid \<and>
           acquired (calls self') = acquired (calls self) @ [lid] \<and>
           released (calls self') = released (calls self)"
  using assms
  by (auto simp: setUp_def called_def Let_def acquired_append released_append
      split: sum.splits option.splits)

lemma setUp_add_listener:
  assumes "AddListener bus rule r \<in> set (calls (fst (setUp sv cls new_test_case)))"
  shows "bus = py ''default'' \<and> r = add_listener sv bus rule \<and>
         (\<exists>outputs name. get_stack_outputs sv (plugin_tester_stack_name cls)
              [py ''PluginLifecycleWorkflow'', py ''PluginSuccessEventRuleName''] = Inr outputs \<and>
            outputs (py ''PluginSuccessEventRuleName'') = Some name \<and> rule = Some name)"
  using assms
  by (auto simp: setUp_def called_def Let_def new_test_case_def
      split: sum.splits option.splits)

lemma test_frame:
  assumes "test_minimal_plugin_event_published_waiting sv self = (self', r)"
  shows "listener_id self' = listener_id self \<and>
         acquired (calls self') = acquired (calls self) \<and>
         released (calls self') = released (calls self)"
  using assms
  by (auto simp: test_minimal_plugin_event_published_waiting_def called_def Let_def
      json_dumps_trigger_event acquired_append released_append split: sum.splits)

lemma test_calls:
  "\<exists>cs. calls (fst (test_minimal_plugin_event_published_waiting sv self)) = calls self @ cs \<and>
        (\<forall>bus rule r. AddListener bus rule r \<notin> set cs)"
  by (auto simp: test_minimal_plugin_event_published_waiting_def called_def Let_def
      json_dumps_trigger_event split: sum.splits)

lemma test_sent:
  \<open>sent (calls (fst (test_minimal_plugin_event_published_waiting sv self))) =
     sent (calls self) @ [py ''{"eventHook": "postValidate", "pluginTitle": "PythonMinimalPlugin"}'']\<close>
  by (simp add: test_minimal_plugin_event_published_waiting_def called_def Let_def sent_append
      json_dumps_trigger_event split: sum.splits)

lemma test_waits:
  \<open>waits (calls (fst (test_minimal_plugin_event_published_waiting sv self))) =
     waits (calls self) @
       (case start_execution sv (plugin_tester_arn self)
               (py ''{"eventHook": "postValidate", "pluginTitle": "PythonMinimalPlugin"}'') of
          Inl e \<Rightarrow> []
        | Inr u \<Rightarrow> [(listener_id self, 20)])\<close>
  by (simp add: test_minimal_plugin_event_published_waiting_def called_def Let_def waits_append
      json_dumps_trigger_event SLA_TIMEOUT_SECONDS_def split: sum.splits)

lemma test_outcome:
  assumes \<open>start_execution sv (plugin_tester_arn self)
             (py ''{"eventHook": "postValidate", "pluginTitle": "PythonMinimalPlugin"}'') = Inr u\<close>
    and "wait_until_event_matched sv (listener_id self) matched_event_is_correct
           SLA_TIMEOUT_SECONDS = Inr event_was_matched"
  shows "snd (test_minimal_plugin_event_published_waiting sv self) = assertTrue event_was_matched"
  using assms
  by (simp add: test_minimal_plugin_event_published_waiting_def called_def Let_def
      json_dumps_trigger_event)

lemma tearDown_releases:
  assumes "tearDown sv self = (self', r)"
  shows "acquired (calls self') = acquired (calls self) \<and>
         released (calls self') = released (calls self) @ [listener_id self] \<and>
         r = remove_listeners sv [listener_id self]"
  using assms
  by (auto simp: tearDown_def called_def Let_def acquired_append released_append
      split: sum.splits)

lemma tearDown_calls:
  "calls (fst (tearDown sv self)) = calls self @ [RemoveListeners [listener_id self]]"
  by (auto simp: tearDown_def called_def Let_def split: sum.splits)

lemma run_raises:
  assumes "setUp sv cls new_test_case = (self1, Inl e)"
  shows "run sv cls = (self1, report_of (Inl e))"
  using assms by (simp add: run_def)

lemma run_returns:
  assumes "setUp sv cls new_test_case = (self1, Inr u)"
  shows "run sv cls =
    (fst (tearDown sv (fst (test_minimal_plugin_event_published_waiting sv self1))),
     report_of (snd (test_minimal_plugin_event_published_waiting sv self1)) @
     report_of (snd (tearDown sv (fst (test_minimal_plugin_event_published_waiting sv self1)))))"
  using assms by (simp add: run_def split: prod.splits)

lemma run_listener_balance:
  "released (calls (fst (run sv cls))) = map Some (acquired (calls (fst (run sv cls)))) \<and>
   length (acquired (calls (fst (run sv cls)))) \<le> 1"
proof (cases "setUp sv cls new_test_case")
  case (Pair self1 r1)
  show ?thesis
  proof (cases r1)
    case (Inl e)
    with Pair setUp_raises [of sv cls new_test_case self1 e] run_raises [of sv cls self1 e]
    show ?thesis by (simp add: new_test_case_calls)
  next
    case (Inr u)
    with Pair have s: "setUp sv cls new_test_case = (self1, Inr u)" by simp
    obtain self2 r2 where t: "test_minimal_plugin_event_published_waiting sv self1 = (self2, r2)"
      by (cases "test_minimal_plugin_event_published_waiting sv self1")
    obtain self3 r3 where d: "tearDown sv self2 = (self3, r3)"
      by (cases "tearDown sv self2")
    from setUp_returns [OF s] obtain lid where l: "listener_id self1 = Some lid"
      and a1: "acquired (calls self1) = [lid]" and r1: "released (calls self1) = []"
      by (auto simp: new_test_case_calls)
    from run_returns [OF s] t d have "fst (run sv cls) = self3" by simp
    with test_frame [OF t] tearDown_releases [OF d] l a1 r1 show ?thesis by simp
  qed
qed

lemma run_add_listener:
  assumes "AddListener bus rule r \<in> set (calls (fst (run sv cls)))"
  shows "AddListener bus rule r \<in> set (calls (fst (setUp sv cls new_test_case)))"
proof (cases "setUp sv cls new_test_case")
  case (Pair self1 r1)
  show ?thesis
  proof (cases r1)
    case (Inl e)
    with Pair assms show ?thesis by (simp add: run_def)
  next
    case (Inr u)
    with Pair have s: "setUp sv cls new_test_case = (self1, Inr u)" by simp
    from test_calls [of sv self1] obtain cs where
      c: "calls (fst (test_minimal_plugin_event_published_waiting sv self1)) = calls self1 @ cs"
      and n: "\<forall>bus rule r. AddListener bus rule r \<notin> set cs" by blast
    from assms run_returns [OF s] c n s show ?thesis
      by (auto simp: tearDown_calls)
  qed
qed

lemma sample_acquired:
  "acquired (calls (fst (run (sample_services waited) sample_class))) = [py ''listener-1'']"
  by (simp add: run_returns [OF sample_setUp] tearDown_calls acquired_append
      test_frame [OF surjective_pairing])

section \<open>What the match predicate computes\<close>

lemma matched_cases:
  "matched_event_is_correct received =
     (case json_loads received of
        Inl e \<Rightarrow> Inl e
      | Inr (JObject kvs) \<Rightarrow>
          (case map_of kvs (py ''source'') of
             None \<Rightarrow> Inl (KeyError (py ''source''))
           | Some source \<Rightarrow>
               if source \<noteq> JString (py ''video.plugin.PythonMinimalPlugin'') then Inr False
               else (case map_of kvs (py ''detail-type'') of
                       None \<Rightarrow> Inl (KeyError (py ''detail-type''))
                     | Some d \<Rightarrow> Inr (d = JString (py ''plugin-complete''))))
      | Inr _ \<Rightarrow> Inl TypeError)"
  by (auto simp: matched_event_is_correct_def getitem_def eq_str_def
      split: sum.splits json.splits option.splits)

lemma matched_iff:
  "matched_event_is_correct received = Inr True \<longleftrightarrow>
     (\<exists>kvs. json_loads received = Inr (JObject kvs) \<and>
        map_of kvs (py ''source'') = Some (JString (py ''video.plugin.PythonMinimalPlugin'')) \<and>
        map_of kvs (py ''detail-type'') = Some (JString (py ''plugin-complete'')))"
proof (cases "json_loads received")
  case (Inl e)
  then show ?thesis by (simp add: matched_cases)
next
  case (Inr event)
  then show ?thesis
    by (cases event) (auto simp: matched_cases split: option.splits)
qed


lemma matched_sample_event: "matched_event_is_correct sample_event = Inr True"
  by (simp add: matched_cases json_loads_sample_event sample_event_fields)

lemma matched_terse_event: "matched_event_is_correct terse_event = Inr True"
  by (simp add: matched_cases json_loads_terse_event terse_event_fields)

lemma matched_other_event: "matched_event_is_correct other_event = Inr False"
  by (simp add: matched_cases json_loads_other_event other_event_fields)

section \<open>What the wait step of the spec returns\<close>

lemma wait_spec_no_match:
  assumes "\<forall>(t, ev) \<in> set evs. t < deadline \<longrightarrow> \<not> predicate ev"
  shows "wait_spec evs predicate deadline = (False, deadline)"
  using assms by (induction evs) auto

lemma wait_spec_False:
  assumes "\<not> fst (wait_spec evs predicate deadline)"
  shows "snd (wait_spec evs predicate deadline) = deadline"
  using assms by (induction evs) (auto split: if_splits)

lemma wait_spec_match:
  assumes "sorted (map fst evs)" and "(t, ev) \<in> set evs" and "t < deadline" and "predicate ev"
  shows "\<exists>t' ev'. wait_spec evs predicate deadline = (True, t') \<and> t' \<le> t \<and>
           (t', ev') \<in> set evs \<and> predicate ev' \<and>
           (\<forall>(s, e) \<in> set evs. predicate e \<longrightarrow> t' \<le> s)"
  using assms
proof (induction evs)
  case Nil
  then show ?case by simp
next
  case (Cons x evs)
  obtain t0 e0 where x: "x = (t0, e0)" by (cases x)
  from Cons.prems(1) x have le: "\<forall>(s, e) \<in> set evs. t0 \<le> s" and so: "sorted (map fst evs)"
    by auto
  from Cons.prems(2) x le have "t0 \<le> t" by auto
  with Cons.prems(3) have nd: "\<not> deadline \<le> t0" by simp
  show ?case
  proof (cases "predicate e0")
    case True
    with x nd le \<open>t0 \<le> t\<close> show ?thesis by auto
  next
    case False
    with Cons.prems(2,4) x have "(t, ev) \<in> set evs" by auto
    from Cons.IH [OF so this Cons.prems(3,4)] obtain t' ev' where
      "wait_spec evs predicate deadline = (True, t')" "t' \<le> t" "(t', ev') \<in> set evs"
      "predicate ev'" "\<forall>(s, e) \<in> set evs. predicate e \<longrightarrow> t' \<le> s"
      by blast
    with False x nd show ?thesis by auto
  qed
qed

lemma spec_wait_no_match:
  assumes "\<forall>(t, received) \<in> set evs. t < timeout_seconds \<longrightarrow> assertion_fn received = Inr False"
  shows "wait_until_event_matched_spec evs lid assertion_fn timeout_seconds = Inr False"
proof -
  from assms have "\<forall>(t, received) \<in> set evs. t < timeout_seconds \<longrightarrow>
      \<not> (assertion_fn received = Inr True)"
    by auto
  from wait_spec_no_match [OF this] show ?thesis
    by (simp add: wait_until_event_matched_spec_def)
qed

lemma spec_wait_match:
  assumes "sorted (map fst evs)"
    and "\<exists>(t, received) \<in> set evs. t < timeout_seconds \<and> assertion_fn received = Inr True"
  shows "wait_until_event_matched_spec evs lid assertion_fn timeout_seconds = Inr True"
proof -
  from assms(2) obtain t received where "(t, received) \<in> set evs" "t < timeout_seconds"
    "assertion_fn received = Inr True" by auto
  from wait_spec_match [OF assms(1) this(1,2), of "\<lambda>received. assertion_fn received = Inr True"]
    this(3)
  show ?thesis by (auto simp: wait_until_event_matched_spec_def)
qed

lemma sample_services_on_simps:
  "wait_until_event_matched (sample_services_on evs) = wait_until_event_matched_spec evs"
  "start_execution (sample_services_on evs) arn input = Inr ()"
  "remove_listeners (sample_services_on evs) ids = Inr ()"
  by (simp_all add: sample_services_on_def sample_services_def)

lemma sample_setUp_on:
  "setUp (sample_services_on evs) sample_class new_test_case =
     (\<lparr>listener_id = Some (py ''listener-1''),
       plugin_tester_arn =
         Some (py ''arn:aws:states:eu-west-1:123456789012:stateMachine:PluginLifecycle''),
       existing_rule_name = Some (py ''plugin-success-rule''),
       calls = [GetStackOutputs (py ''plugin-tester'')
                  [py ''PluginLifecycleWorkflow'', py ''PluginSuccessEventRuleName''],
                AddListener (py ''default'') (Some (py ''plugin-success-rule''))
                  (Inr (py ''listener-1''))]\<rparr>, Inr ())"
  by (simp add: setUp_def sample_services_on_def sample_services_def sample_class_def
      new_test_case_def called_def sample_outputs_simps)

section \<open>Properties of the stock request handler\<close>

text \<open>
  Claim C2. Whenever \<open>retrieveStock\<close> raises an exception, \<open>getStocksRequest\<close> prints
  that exception (and nothing else) and returns no envelope: the \<open>return\<close> statement
  reads the local variable \<open>response\<close>, which was never assigned on this path, so the
  call ends in \<open>UnboundLocalError\<close>.
\<close>

theorem getStocksRequest_retrieval_fails:
  assumes "retrieveStock stockID = Inl e"
  shows "getStocksRequest retrieveStock stockID =
           ([PrintException e], Inl (UnboundLocalError (py ''response'')))"
  using assms by (simp add: getStocksRequest_def)

theorem getStocksRequest_retrieval_fails_witness:
  "sample_retrieveStock (py ''XXXX'') = Inl (OtherError (py ''HTTPError'')) \<and>
   getStocksRequest sample_retrieveStock (py ''XXXX'') =
     ([PrintException (OtherError (py ''HTTPError''))], Inl (UnboundLocalError (py ''response'')))"
proof -
  have h: "sample_retrieveStock (py ''XXXX'') = Inl (OtherError (py ''HTTPError''))"
    by (simp add: sample_retrieveStock_def py_def)
  from getStocksRequest_retrieval_fails [of sample_retrieveStock "py ''XXXX''", OF h] h
  show ?thesis by simp
qed




section \<open>Properties of the integration test\<close>

text \<open>
  Claim C7. If \<open>AWS_REGION\<close> is not set, the class body raises its exception for that
  variable before any client is constructed. If \<open>AWS_REGION\<close> is set and
  \<open>PLUGIN_TESTER_STACK_NAME\<close> is not, it raises its exception for the stack name, again
  before any client is constructed. If both are set, the class body goes on to construct
  the Test Kit client for that region: an exception that ends it then is one a client
  constructor raised, and if the constructors succeed the class attributes hold the two
  values. The class body reads each variable once and has no loop.
\<close>

theorem class_body_requires_environment:
  "(environ (py ''AWS_REGION'') = None \<longrightarrow>
      class_body environ construct =
        ([], Inl (Exception (py ''AWS_REGION environment variable is required'')))) \<and>
   (environ (py ''AWS_REGION'') \<noteq> None \<and> environ (py ''PLUGIN_TESTER_STACK_NAME'') = None \<longrightarrow>
      class_body environ construct =
        ([], Inl (Exception (py ''PLUGIN_TESTER_STACK_NAME environment variable is required'')))) \<and>
   (\<forall>region stack_name.
      environ (py ''AWS_REGION'') = Some region \<and>
      environ (py ''PLUGIN_TESTER_STACK_NAME'') = Some stack_name \<longrightarrow>
        take 1 (fst (class_body environ construct)) = [AwsIatk region] \<and>
        (\<forall>e. snd (class_body environ construct) = Inl e \<longrightarrow>
               construct (AwsIatk region) = Some e \<or>
               construct (StepFunctionsClient region) = Some e) \<and>
        (construct (AwsIatk region) = None \<and> construct (StepFunctionsClient region) = None \<longrightarrow>
           snd (class_body environ construct) =
             Inr \<lparr>aws_region = region, plugin_tester_stack_name = stack_name\<rparr>))"
  by (auto simp: class_body_def split: option.splits)

theorem class_body_requires_environment_witness:
  "class_body Map.empty (\<lambda>c. None) =
     ([], Inl (Exception (py ''AWS_REGION environment variable is required''))) \<and>
   class_body region_only_environ (\<lambda>c. None) =
     ([], Inl (Exception (py ''PLUGIN_TESTER_STACK_NAME environment variable is required''))) \<and>
   take 1 (fst (class_body sample_environ (\<lambda>c. None))) = [AwsIatk (py ''eu-west-1'')] \<and>
   snd (class_body sample_environ (\<lambda>c. None)) =
     Inr \<lparr>aws_region = py ''eu-west-1'', plugin_tester_stack_name = py ''plugin-tester''\<rparr> \<and>
   class_body sample_environ (\<lambda>c. Some (OtherError (py ''NoRegionError''))) =
     ([AwsIatk (py ''eu-west-1'')], Inl (OtherError (py ''NoRegionError'')))"
proof -
  have "class_body sample_environ (\<lambda>c. Some (OtherError (py ''NoRegionError''))) =
     ([AwsIatk (py ''eu-west-1'')], Inl (OtherError (py ''NoRegionError'')))"
    by (simp add: class_body_def environ_simps)
  with class_body_requires_environment [of Map.empty "\<lambda>c. None"]
    class_body_requires_environment [of region_only_environ "\<lambda>c. None"]
    class_body_requires_environment [of sample_environ "\<lambda>c. None"]
  show ?thesis by (simp add: environ_simps)
qed

text \<open>
  Claim C1. In every run of the test case, whatever the services answer and however the
  test method ends (it passes, its assertion fails, or a call raises), the identifiers
  passed to \<open>remove_listeners\<close> are exactly the identifiers \<open>add_listener\<close> returned, each
  once: the number of releases equals the number of acquisitions, and it is at most one.
  Every \<open>add_listener\<close> call of the run is on the bus \<open>default\<close> and clones the rule that
  the stack output \<open>PluginSuccessEventRuleName\<close> names.
\<close>

theorem listener_released_exactly_once:
  "released (calls (fst (run sv cls))) = map Some (acquired (calls (fst (run sv cls)))) \<and>
   length (acquired (calls (fst (run sv cls)))) \<le> 1 \<and>
   (\<forall>bus rule r. AddListener bus rule r \<in> set (calls (fst (run sv cls))) \<longrightarrow>
      bus = py ''default'' \<and>
      (\<exists>outputs name. get_stack_outputs sv (plugin_tester_stack_name cls)
           [py ''PluginLifecycleWorkflow'', py ''PluginSuccessEventRuleName''] = Inr outputs \<and>
         outputs (py ''PluginSuccessEventRuleName'') = Some name \<and> rule = Some name))"
  using run_listener_balance [of sv cls] run_add_listener [of _ _ _ sv cls]
    setUp_add_listener [of _ _ _ sv cls]
  by blast

theorem listener_released_exactly_once_witness:
  "released (calls (fst (run (sample_services (Inr True)) sample_class))) =
     [Some (py ''listener-1'')] \<and>
   released (calls (fst (run (sample_services (Inr False)) sample_class))) =
     [Some (py ''listener-1'')] \<and>
   released (calls (fst (run (sample_services (Inl (OtherError (py ''ThrottlingException''))))
                          sample_class))) =
     [Some (py ''listener-1'')] \<and>
   AddListener (py ''default'') (Some (py ''plugin-success-rule'')) (Inr (py ''listener-1''))
     \<in> set (calls (fst (run (sample_services (Inr True)) sample_class))) \<and>
   (\<exists>outputs. get_stack_outputs (sample_services (Inr True)) (plugin_tester_stack_name sample_class)
        [py ''PluginLifecycleWorkflow'', py ''PluginSuccessEventRuleName''] = Inr outputs \<and>
      outputs (py ''PluginSuccessEventRuleName'') = Some (py ''plugin-success-rule''))"
proof -
  have r: "released (calls (fst (run (sample_services w) sample_class))) =
             [Some (py ''listener-1'')]" for w
    using listener_released_exactly_once [of "sample_services w" sample_class]
    by (simp only: sample_acquired list.map simp_thms)
  have a: "AddListener (py ''default'') (Some (py ''plugin-success-rule''))
             (Inr (py ''listener-1''))
           \<in> set (calls (fst (run (sample_services (Inr True)) sample_class)))"
    using test_calls [of "sample_services (Inr True)" "fst (setUp (sample_services (Inr True)) sample_class new_test_case)"]
    by (auto simp: run_returns [OF sample_setUp] tearDown_calls sample_setUp)
  from listener_released_exactly_once [of "sample_services (Inr True)" sample_class] a
  have "\<exists>outputs name. get_stack_outputs (sample_services (Inr True))
           (plugin_tester_stack_name sample_class)
           [py ''PluginLifecycleWorkflow'', py ''PluginSuccessEventRuleName''] = Inr outputs \<and>
         outputs (py ''PluginSuccessEventRuleName'') = Some name \<and>
         Some (py ''plugin-success-rule'') = Some name"
    by blast
  then have "\<exists>outputs. get_stack_outputs (sample_services (Inr True))
           (plugin_tester_stack_name sample_class)
           [py ''PluginLifecycleWorkflow'', py ''PluginSuccessEventRuleName''] = Inr outputs \<and>
         outputs (py ''PluginSuccessEventRuleName'') = Some (py ''plugin-success-rule'')"
    by auto
  with r a show ?thesis by blast
qed

text \<open>
  Claim C4. In the wait step of the spec, if an event that satisfies the predicate
  arrives strictly before the deadline, the wait returns true, and it returns at the
  arrival time of the first event that satisfies the predicate, which is before the
  deadline: it does not wait out the rest of the deadline.
\<close>

theorem wait_returns_at_first_match:
  assumes "sorted (map fst evs)" and "(t, ev) \<in> set evs" and "t < deadline" and "predicate ev"
  shows "\<exists>t' ev'. wait_spec evs predicate deadline = (True, t') \<and> t' \<le> t \<and> t' < deadline \<and>
           (t', ev') \<in> set evs \<and> predicate ev' \<and>
           (\<forall>(s, e) \<in> set evs. predicate e \<longrightarrow> t' \<le> s)"
proof -
  from wait_spec_match [of evs t ev deadline predicate, OF assms] obtain t' ev' where
    "wait_spec evs predicate deadline = (True, t')" "t' \<le> t" "(t', ev') \<in> set evs"
    "predicate ev'" "\<forall>(s, e) \<in> set evs. predicate e \<longrightarrow> t' \<le> s"
    by blast
  with assms(3) show ?thesis by (intro exI [of _ t'] exI [of _ ev']) simp
qed

theorem wait_returns_at_first_match_witness:
  "sorted (map fst timely_events) \<and> (9, terse_event) \<in> set timely_events \<and>
   matched_event_is_correct terse_event = Inr True \<and>
   wait_spec timely_events (\<lambda>received. matched_event_is_correct received = Inr True)
     SLA_TIMEOUT_SECONDS = (True, 7)"
proof -
  let ?p = "\<lambda>received. matched_event_is_correct received = Inr True"
  have s: "sorted (map fst timely_events)" and m: "(9, terse_event) \<in> set timely_events"
    and d: "(9::int) < SLA_TIMEOUT_SECONDS"
    by (simp_all add: timely_events_def SLA_TIMEOUT_SECONDS_def)
  from wait_returns_at_first_match [of timely_events 9 terse_event SLA_TIMEOUT_SECONDS ?p,
      OF s m d matched_terse_event]
  obtain t' ev' where w: "wait_spec timely_events ?p SLA_TIMEOUT_SECONDS = (True, t')"
    and e: "(t', ev') \<in> set timely_events" and p: "?p ev'"
    and f: "\<forall>(s, e) \<in> set timely_events. ?p e \<longrightarrow> t' \<le> s"
    by blast
  from f matched_sample_event have "t' \<le> 7" by (simp add: timely_events_def)
  moreover from e p matched_other_event have "7 \<le> t'" by (auto simp: timely_events_def)
  ultimately have "t' = 7" by simp
  with w s m matched_terse_event show ?thesis by simp
qed

text \<open>
  Claim C5. In the wait step of the spec, if no event received before the deadline
  satisfies the predicate, the wait returns false, and it returns at the deadline, not
  before: whenever the wait returns false it does so at the deadline. With the timeout
  of the test, \<open>SLA_TIMEOUT_SECONDS\<close>, that is after 20 seconds.
\<close>

theorem wait_fails_only_at_deadline:
  "((\<forall>(t, ev) \<in> set evs. t < deadline \<longrightarrow> \<not> predicate ev) \<longrightarrow>
      wait_spec evs predicate deadline = (False, deadline)) \<and>
   (\<not> fst (wait_spec evs predicate deadline) \<longrightarrow>
      snd (wait_spec evs predicate deadline) = deadline) \<and>
   ((\<forall>(t, ev) \<in> set evs. t < SLA_TIMEOUT_SECONDS \<longrightarrow> \<not> predicate ev) \<longrightarrow>
      wait_spec evs predicate SLA_TIMEOUT_SECONDS = (False, 20))"
proof -
  have "SLA_TIMEOUT_SECONDS = 20" by (simp add: SLA_TIMEOUT_SECONDS_def)
  with wait_spec_no_match [of evs deadline predicate]
    wait_spec_no_match [of evs SLA_TIMEOUT_SECONDS predicate]
    wait_spec_False [of evs predicate deadline]
  show ?thesis by simp
qed

theorem wait_fails_only_at_deadline_witness:
  "wait_spec late_events (\<lambda>received. matched_event_is_correct received = Inr True)
     SLA_TIMEOUT_SECONDS = (False, 20) \<and>
   \<not> fst (wait_spec late_events (\<lambda>received. matched_event_is_correct received = Inr True) 20) \<and>
   snd (wait_spec late_events (\<lambda>received. matched_event_is_correct received = Inr True) 20) = 20"
proof -
  let ?p = "\<lambda>received. matched_event_is_correct received = Inr True"
  have n: "\<forall>(t, ev) \<in> set late_events. t < SLA_TIMEOUT_SECONDS \<longrightarrow> \<not> ?p ev"
    by (simp add: late_events_def SLA_TIMEOUT_SECONDS_def matched_other_event)
  from wait_fails_only_at_deadline [of late_events SLA_TIMEOUT_SECONDS ?p] n
  have "wait_spec late_events ?p SLA_TIMEOUT_SECONDS = (False, 20)" by blast
  then show ?thesis by (simp add: SLA_TIMEOUT_SECONDS_def)
qed

text \<open>
  Claim C6. Let the wait step be that of the spec, on any stream of events, and let
  \<open>setUp\<close> and \<open>start_execution\<close> succeed. If every event received before the deadline
  of 20 seconds is a non-match, the wait step ends with no match: it returns \<open>False\<close>
  and raises nothing. \<open>assertTrue\<close> turns that into an \<open>AssertionError\<close>, the run reports
  a failure of the test, not an error, and \<open>tearDown\<close> still releases the listener.
  If instead the events arrive in order, the predicate returns a boolean on each event
  received before the deadline and one of them matches, the test method passes.
  In both cases the wait step is called once, with the listener of the test case and a
  timeout of 20 seconds.
\<close>

theorem no_match_is_reported_failure:
  assumes "wait_until_event_matched sv = wait_until_event_matched_spec evs"
    and "setUp sv cls new_test_case = (self1, Inr u)"
    and \<open>start_execution sv (plugin_tester_arn self1)
            (py ''{"eventHook": "postValidate", "pluginTitle": "PythonMinimalPlugin"}'') = Inr ()\<close>
  shows "((\<forall>(t, received) \<in> set evs.
             t < SLA_TIMEOUT_SECONDS \<longrightarrow> matched_event_is_correct received = Inr False) \<longrightarrow>
            wait_until_event_matched sv (listener_id self1) matched_event_is_correct
              SLA_TIMEOUT_SECONDS = Inr False \<and>
            snd (test_minimal_plugin_event_published_waiting sv self1) = Inl AssertionError \<and>
            snd (run sv cls) = Failure # report_of (remove_listeners sv [listener_id self1]) \<and>
            released (calls (fst (run sv cls))) = [listener_id self1]) \<and>
         (sorted (map fst evs) \<and>
          (\<forall>(t, received) \<in> set evs.
             t < SLA_TIMEOUT_SECONDS \<longrightarrow> (\<exists>b. matched_event_is_correct received = Inr b)) \<and>
          (\<exists>(t, received) \<in> set evs.
             t < SLA_TIMEOUT_SECONDS \<and> matched_event_is_correct received = Inr True) \<longrightarrow>
            snd (test_minimal_plugin_event_published_waiting sv self1) = Inr () \<and>
            snd (run sv cls) = report_of (remove_listeners sv [listener_id self1])) \<and>
         waits (calls (fst (run sv cls))) = [(listener_id self1, 20)]"
proof -
  let ?test = "test_minimal_plugin_event_published_waiting sv self1"
  obtain self2 r2 where t: "?test = (self2, r2)" by (cases ?test)
  obtain self3 r3 where d: "tearDown sv self2 = (self3, r3)" by (cases "tearDown sv self2")
  from setUp_returns [OF assms(2)] have r1: "released (calls self1) = []"
    by (auto simp: new_test_case_calls)
  from assms(2) have w1: "waits (calls self1) = []"
    by (auto simp: setUp_def called_def Let_def new_test_case_def waits_append
        split: sum.splits option.splits)
  from run_returns [OF assms(2)] t d
  have run: "run sv cls = (self3, report_of r2 @ report_of r3)" by simp
  from tearDown_releases [OF d] test_frame [OF t]
  have r3: "r3 = remove_listeners sv [listener_id self1]"
    and rel: "released (calls self3) = released (calls self1) @ [listener_id self1]"
    by simp_all
  have no: "wait_until_event_matched sv (listener_id self1) matched_event_is_correct
              SLA_TIMEOUT_SECONDS = Inr False \<and> r2 = Inl AssertionError"
    if "\<forall>(t, received) \<in> set evs.
          t < SLA_TIMEOUT_SECONDS \<longrightarrow> matched_event_is_correct received = Inr False"
  proof -
    from spec_wait_no_match [OF that] assms(1)
    have w: "wait_until_event_matched sv (listener_id self1) matched_event_is_correct
               SLA_TIMEOUT_SECONDS = Inr False" by simp
    from test_outcome [OF assms(3) w] t show ?thesis
      using w by (simp add: assertTrue_def)
  qed
  have yes: "r2 = Inr ()"
    if "sorted (map fst evs)" and "\<exists>(t, received) \<in> set evs.
          t < SLA_TIMEOUT_SECONDS \<and> matched_event_is_correct received = Inr True"
  proof -
    from spec_wait_match [OF that] assms(1)
    have w: "wait_until_event_matched sv (listener_id self1) matched_event_is_correct
               SLA_TIMEOUT_SECONDS = Inr True" by simp
    from test_outcome [OF assms(3) w] t show ?thesis by (simp add: assertTrue_def)
  qed
  have wt: "waits (calls (fst (run sv cls))) = [(listener_id self1, 20)]"
    using run t d test_waits [of sv self1] assms(3) w1
    by (simp add: tearDown_calls [of sv self2, unfolded d, simplified] waits_append)
  from no yes wt run t r3 rel r1 show ?thesis
    by (auto simp: report_of_def)
qed

theorem no_match_is_reported_failure_witness:
  "snd (run (sample_services_on late_events) sample_class) = [Failure] \<and>
   released (calls (fst (run (sample_services_on late_events) sample_class))) =
     [Some (py ''listener-1'')] \<and>
   waits (calls (fst (run (sample_services_on late_events) sample_class))) =
     [(Some (py ''listener-1''), 20)] \<and>
   snd (run (sample_services_on timely_events) sample_class) = []"
proof -
  have l: "\<forall>(t, received) \<in> set late_events.
             t < SLA_TIMEOUT_SECONDS \<longrightarrow> matched_event_is_correct received = Inr False"
    by (simp add: late_events_def SLA_TIMEOUT_SECONDS_def matched_other_event)
  have s: "sorted (map fst timely_events)"
    by (simp add: timely_events_def)
  have m: "\<exists>(t, received) \<in> set timely_events.
             t < SLA_TIMEOUT_SECONDS \<and> matched_event_is_correct received = Inr True"
    by (simp add: timely_events_def SLA_TIMEOUT_SECONDS_def matched_sample_event)
  have b: "\<forall>(t, received) \<in> set timely_events.
             t < SLA_TIMEOUT_SECONDS \<longrightarrow> (\<exists>b. matched_event_is_correct received = Inr b)"
    by (auto simp: timely_events_def matched_other_event matched_sample_event
        matched_terse_event)
  from no_match_is_reported_failure
         [OF sample_services_on_simps(1) sample_setUp_on, of late_events] l
       no_match_is_reported_failure
         [OF sample_services_on_simps(1) sample_setUp_on, of timely_events] s m b
  show ?thesis
    by (simp add: sample_services_on_simps report_of_def)
qed

text \<open>
  Claim C8. The test method passes one input to \<open>start_execution\<close>, once: the text
  \<open>json.dumps\<close> gives for the record with \<open>eventHook\<close> \<open>postValidate\<close> and \<open>pluginTitle\<close>
  \<open>PythonMinimalPlugin\<close>, which parses back to exactly that record. The match predicate
  returns \<open>True\<close> for a received payload exactly when the payload is a JSON object whose
  \<open>source\<close> is the string \<open>video.plugin.\<close> followed by that plugin title and whose
  \<open>detail-type\<close> is the string \<open>plugin-complete\<close>.
\<close>

theorem trigger_event_sent_and_matched:
  \<open>sent (calls (fst (test_minimal_plugin_event_published_waiting sv self))) =
      sent (calls self) @
        [py ''{"eventHook": "postValidate", "pluginTitle": "PythonMinimalPlugin"}''] \<and>
    json_loads (py ''{"eventHook": "postValidate", "pluginTitle": "PythonMinimalPlugin"}'') =
      Inr trigger_event \<and>
    getitem trigger_event (py ''eventHook'') = Inr (JString (py ''postValidate'')) \<and>
    getitem trigger_event (py ''pluginTitle'') = Inr (JString (py ''PythonMinimalPlugin'')) \<and>
    (matched_event_is_correct received = Inr True \<longleftrightarrow>
       (\<exists>kvs. json_loads received = Inr (JObject kvs) \<and>
          map_of kvs (py ''source'') =
            Some (JString (py ''video.plugin.'' @ py ''PythonMinimalPlugin'')) \<and>
          map_of kvs (py ''detail-type'') = Some (JString (py ''plugin-complete''))))\<close>
proof -
  have g1: "getitem trigger_event (py ''eventHook'') = Inr (JString (py ''postValidate''))"
    by (simp add: getitem_def trigger_event_def py_def)
  have g2: "getitem trigger_event (py ''pluginTitle'') = Inr (JString (py ''PythonMinimalPlugin''))"
    by (simp add: getitem_def trigger_event_def py_def)
  have t: "py ''video.plugin.'' @ py ''PythonMinimalPlugin'' = py ''video.plugin.PythonMinimalPlugin''"
    by (simp add: py_def)
  show ?thesis
    unfolding t using test_sent [of sv self] json_loads_trigger_text g1 g2 matched_iff [of received]
    by (simp only: simp_thms)
qed

theorem trigger_event_sent_and_matched_witness:
  \<open>sent (calls (fst (test_minimal_plugin_event_published_waiting (sample_services (Inr True))
                       new_test_case))) =
      [py ''{"eventHook": "postValidate", "pluginTitle": "PythonMinimalPlugin"}''] \<and>
    matched_event_is_correct sample_event = Inr True\<close>
proof -
  have t: "py ''video.plugin.'' @ py ''PythonMinimalPlugin'' = py ''video.plugin.PythonMinimalPlugin''"
    by (simp add: py_def)
  have "\<exists>kvs. json_loads sample_event = Inr (JObject kvs) \<and>
          map_of kvs (py ''source'') =
            Some (JString (py ''video.plugin.'' @ py ''PythonMinimalPlugin'')) \<and>
          map_of kvs (py ''detail-type'') = Some (JString (py ''plugin-complete''))"
    unfolding t using json_loads_sample_event sample_event_fields by blast
  with trigger_event_sent_and_matched [of "sample_services (Inr True)" new_test_case sample_event]
  show ?thesis by (simp add: new_test_case_calls)
qed

text \<open>
  Claim C9 says that the match predicate returns a boolean on every payload string,
  without raising. It does not: on text that is not JSON it raises \<open>JSONDecodeError\<close>, on
  an object without \<open>source\<close> it raises \<open>KeyError\<close>, and on an object whose \<open>source\<close>
  matches and that has no \<open>detail-type\<close> it raises \<open>KeyError\<close> as well.
\<close>

theorem matched_event_is_correct_raises:
  \<open>matched_event_is_correct (py ''not json'') = Inl JSONDecodeError \<and>
    matched_event_is_correct (py ''{"detail-type": "plugin-complete"}'') =
      Inl (KeyError (py ''source'')) \<and>
    matched_event_is_correct (py ''{"source": "video.plugin.PythonMinimalPlugin"}'') =
      Inl (KeyError (py ''detail-type''))\<close>
  by (simp add: matched_event_is_correct_def getitem_def eq_str_def json_loads_eval)

text \<open>
  Claim C9, amended. The match predicate is a function of the payload alone. It returns
  a boolean, without raising, exactly on the payloads that \<open>json.loads\<close> parses to a JSON
  object with a \<open>source\<close> member and, when \<open>source\<close> is the expected string, a
  \<open>detail-type\<close> member. On every other payload it raises: the exception of
  \<open>json.loads\<close> when the text does not parse, \<open>TypeError\<close> when the parsed value is not
  an object, \<open>KeyError\<close> when a member it reads is missing.
\<close>

theorem matched_event_is_correct_returns_iff:
  "((\<exists>b. matched_event_is_correct received = Inr b) \<longleftrightarrow>
      (\<exists>kvs source. json_loads received = Inr (JObject kvs) \<and>
         map_of kvs (py ''source'') = Some source \<and>
         (source = JString (py ''video.plugin.PythonMinimalPlugin'') \<longrightarrow>
            map_of kvs (py ''detail-type'') \<noteq> None))) \<and>
   (\<forall>e. json_loads received = Inl e \<longrightarrow> matched_event_is_correct received = Inl e) \<and>
   (\<forall>v. json_loads received = Inr v \<and> (\<forall>kvs. v \<noteq> JObject kvs) \<longrightarrow>
      matched_event_is_correct received = Inl TypeError) \<and>
   (\<forall>kvs. json_loads received = Inr (JObject kvs) \<and> map_of kvs (py ''source'') = None \<longrightarrow>
      matched_event_is_correct received = Inl (KeyError (py ''source''))) \<and>
   (\<forall>kvs. json_loads received = Inr (JObject kvs) \<and>
      map_of kvs (py ''source'') = Some (JString (py ''video.plugin.PythonMinimalPlugin'')) \<and>
      map_of kvs (py ''detail-type'') = None \<longrightarrow>
      matched_event_is_correct received = Inl (KeyError (py ''detail-type'')))"
proof (cases "json_loads received")
  case (Inl e)
  then show ?thesis by (simp add: matched_cases)
next
  case (Inr event)
  then show ?thesis
    by (cases event) (auto simp: matched_cases split: option.splits)
qed

theorem matched_event_is_correct_returns_iff_witness:
  "json_loads sample_event = Inr (JObject sample_event_kvs) \<and>
   map_of sample_event_kvs (py ''source'') = Some (JString (py ''video.plugin.PythonMinimalPlugin'')) \<and>
   map_of sample_event_kvs (py ''detail-type'') \<noteq> None \<and>
   (\<exists>b. matched_event_is_correct sample_event = Inr b) \<and>
   json_loads (py ''[]'') = Inr (JArray []) \<and>
   matched_event_is_correct (py ''[]'') = Inl TypeError \<and>
   json_loads (py ''{'') = Inl JSONDecodeError \<and>
   matched_event_is_correct (py ''{'') = Inl JSONDecodeError"
proof -
  have l: "json_loads (py ''[]'') = Inr (JArray [])"
    by (simp add: json_loads_eval)
  have b: "json_loads (py ''{'') = Inl JSONDecodeError"
    by (simp add: json_loads_eval)
  from matched_event_is_correct_returns_iff [of "py ''[]''"] l
  have 1: "matched_event_is_correct (py ''[]'') = Inl TypeError" by simp
  from matched_event_is_correct_returns_iff [of "py ''{''"] b
  have 2: "matched_event_is_correct (py ''{'') = Inl JSONDecodeError" by simp
  from matched_event_is_correct_returns_iff [of sample_event]
    json_loads_sample_event sample_event_fields
  have 3: "\<exists>b. matched_event_is_correct sample_event = Inr b" by auto
  from 1 2 3 l b json_loads_sample_event sample_event_fields show ?thesis by simp
qed

text \<open>
  Claim C10. The result of the match predicate depends only on the \<open>source\<close> and
  \<open>detail-type\<close> members of the event: two payloads that parse as JSON objects and agree
  on these two members get the same result, whatever their other members are, and if
  both members are present that result is a boolean.
\<close>

theorem matched_event_depends_on_two_fields:
  assumes "json_loads received1 = Inr (JObject kvs1)"
    and "json_loads received2 = Inr (JObject kvs2)"
    and "map_of kvs1 (py ''source'') = map_of kvs2 (py ''source'')"
    and "map_of kvs1 (py ''detail-type'') = map_of kvs2 (py ''detail-type'')"
  shows "matched_event_is_correct received1 = matched_event_is_correct received2 \<and>
         (map_of kvs1 (py ''source'') \<noteq> None \<and> map_of kvs1 (py ''detail-type'') \<noteq> None \<longrightarrow>
            (\<exists>b. matched_event_is_correct received1 = Inr b \<and>
                 matched_event_is_correct received2 = Inr b))"
  using assms by (auto simp: matched_cases split: option.splits)

theorem matched_event_depends_on_two_fields_witness:
  "sample_event \<noteq> terse_event \<and>
   matched_event_is_correct sample_event = matched_event_is_correct terse_event \<and>
   (\<exists>b. matched_event_is_correct sample_event = Inr b \<and>
        matched_event_is_correct terse_event = Inr b)"
proof -
  have "sample_event \<noteq> terse_event"
    by (simp add: sample_event_def terse_event_def py_def)
  have s: "map_of sample_event_kvs (py ''source'') = map_of terse_event_kvs (py ''source'')"
    by (simp only: sample_event_fields terse_event_fields)
  have d: "map_of sample_event_kvs (py ''detail-type'') = map_of terse_event_kvs (py ''detail-type'')"
    by (simp only: sample_event_fields terse_event_fields)
  have p: "map_of sample_event_kvs (py ''source'') \<noteq> None \<and>
           map_of sample_event_kvs (py ''detail-type'') \<noteq> None"
    by (simp only: sample_event_fields) simp
  note matched_event_depends_on_two_fields
         [OF json_loads_sample_event json_loads_terse_event s d]
  with p \<open>sample_event \<noteq> terse_event\<close> show ?thesis by blast
qed

text \<open>
  The call of the wait step. The test method calls \<open>wait_until_event_matched\<close> only after
  \<open>start_execution\<close> has returned, and then once, with the listener identifier the test
  case holds and a timeout of 20 seconds.
\<close>

theorem wait_called_with_sla_timeout:
  \<open>waits (calls (fst (test_minimal_plugin_event_published_waiting sv self))) =
     waits (calls self) @
       (case start_execution sv (plugin_tester_arn self)
               (py ''{"eventHook": "postValidate", "pluginTitle": "PythonMinimalPlugin"}'') of
          Inl e \<Rightarrow> []
        | Inr u \<Rightarrow> [(listener_id self, 20)])\<close>
  by (simp add: test_minimal_plugin_event_published_waiting_def called_def Let_def waits_append
      json_dumps_trigger_event SLA_TIMEOUT_SECONDS_def split: sum.splits)

theorem wait_called_with_sla_timeout_witness:
  "waits (calls (fst (run (sample_services (Inr True)) sample_class))) =
     [(Some (py ''listener-1''), 20)]"
proof -
  let ?sv = "sample_services (Inr True)"
  obtain self1 where s: "setUp ?sv sample_class new_test_case = (self1, Inr ())"
    and l: "listener_id self1 = Some (py ''listener-1'')"
    and c: "waits (calls self1) = []"
    using sample_setUp [of "Inr True"] by simp
  have st: "start_execution ?sv arn input = Inr ()" for arn input
    by (simp add: sample_services_def)
  from wait_called_with_sla_timeout [of ?sv self1] st l c
  have "waits (calls (fst (test_minimal_plugin_event_published_waiting ?sv self1))) =
          [(Some (py ''listener-1''), 20)]"
    by simp
  then show ?thesis
    by (simp add: run_returns [OF s] tearDown_calls waits_append)
qed

end
